theory Spec2Isabelle
  imports Complex_Main "HOL-Library.Word"
begin

section \<open>Data model\<close>

text \<open>
  The adapter translates between the conversation model of the agent framework (package
  genai: contents, parts, function calls) and the message model of the provider SDK
  (package anthropic: message parameters, content blocks, stream events). Go structs are
  records, pointers that the code tests against nil are options, slices are lists (the nil
  slice is the empty list), and a nil pointer dereference is the error value
  \<open>NilPointerDereference\<close> of a sum type.
\<close>

subsection \<open>Finish reasons and token usage\<close>

text \<open>
  \<open>anthropic.StopReason\<close> and \<open>genai.FinishReason\<close> are string types. The constants
  the code names carry the values the two vendor packages declare for them.
\<close>

type_synonym StopReason = string
type_synonym FinishReason = string

definition StopReasonEndTurn :: StopReason where
  "StopReasonEndTurn = ''end_turn''"

definition StopReasonMaxTokens :: StopReason where
  "StopReasonMaxTokens = ''max_tokens''"

definition StopReasonToolUse :: StopReason where
  "StopReasonToolUse = ''tool_use''"

definition FinishReasonStop :: FinishReason where
  "FinishReasonStop = ''STOP''"

definition FinishReasonMaxTokens :: FinishReason where
  "FinishReasonMaxTokens = ''MAX_TOKENS''"

definition FinishReasonOther :: FinishReason where
  "FinishReasonOther = ''OTHER''"

text \<open>The switch of \<open>stopToFinish\<close>, case by case in the order of the source.\<close>

definition stopToFinish :: "StopReason \<Rightarrow> FinishReason" where
  "stopToFinish reason =
     (if reason = StopReasonEndTurn then FinishReasonStop
      else if reason = StopReasonMaxTokens then FinishReasonMaxTokens
      else if reason = StopReasonToolUse then FinishReasonStop
      else FinishReasonOther)"

text \<open>
  \<open>anthropic.Usage\<close> counts tokens in \<open>int64\<close>, the usage metadata of genai in
  \<open>int32\<close>. The conversion \<open>int32(x)\<close> keeps the low 32 bits, and the sum of the two
  counts is formed in 64 bits before it is converted.
\<close>

record Usage =
  u_InputTokens :: "64 word"
  u_OutputTokens :: "64 word"

record UsageMetadata =
  um_PromptTokenCount :: "32 word"
  um_CandidatesTokenCount :: "32 word"
  um_TotalTokenCount :: "32 word"

definition usageToMetadata :: "Usage \<Rightarrow> UsageMetadata" where
  "usageToMetadata u =
     \<lparr> um_PromptTokenCount = ucast (u_InputTokens u),
       um_CandidatesTokenCount = ucast (u_OutputTokens u),
       um_TotalTokenCount = ucast (u_InputTokens u + u_OutputTokens u) \<rparr>"


subsection \<open>Dynamic values and JSON\<close>

text \<open>
  Go's \<open>any\<close>, as far as the adapter builds and inspects it: nil, booleans, numbers,
  strings, \<open>[]string\<close>, \<open>[]any\<close> and \<open>map[string]any\<close>. A map is an association
  list read by \<open>index\<close> (\<open>m[k]\<close>, nil for a missing key), and a variable of map type is
  an option whose \<open>None\<close> is the nil map.

  JSON text is represented by the document it denotes: \<open>Some v\<close> stands for a text that
  the generic decoder of encoding/json reads as \<open>v\<close>, \<open>None\<close> for bytes that are not
  JSON. \<open>jsonValue\<close> gives the decoded form of the encoding of a Go value: the decoder
  knows no \<open>[]string\<close>, so such a slice comes back as a \<open>[]any\<close> of strings. Every
  value of the model can be encoded, so \<open>Marshal\<close> has no error case; the width and
  kind of numbers is not modelled.
\<close>

datatype any =
    ANil
  | ABool bool
  | ANumber int
  | AString string
  | AStrings "string list"
  | ASlice "any list"
  | AMap "(string \<times> any) list"

type_synonym gomap = "(string \<times> any) list option"
type_synonym JSONText = "any option"

definition index :: "(string \<times> any) list \<Rightarrow> string \<Rightarrow> any" where
  "index m k = (case map_of m k of None \<Rightarrow> ANil | Some v \<Rightarrow> v)"

definition indexMap :: "gomap \<Rightarrow> string \<Rightarrow> any" where
  "indexMap m k = (case m of None \<Rightarrow> ANil | Some kvs \<Rightarrow> index kvs k)"

fun jsonValue :: "any \<Rightarrow> any" where
  "jsonValue (AStrings xs) = ASlice (map AString xs)"
| "jsonValue (ASlice xs) = ASlice (map jsonValue xs)"
| "jsonValue (AMap kvs) = AMap (map (\<lambda>(k, v). (k, jsonValue v)) kvs)"
| "jsonValue v = v"

definition Marshal :: "any \<Rightarrow> JSONText" where
  "Marshal v = Some (jsonValue v)"

definition anyOfMap :: "gomap \<Rightarrow> any" where
  "anyOfMap m = (case m of None \<Rightarrow> ANil | Some kvs \<Rightarrow> AMap kvs)"

text \<open>
  \<open>json.Unmarshal(data, &m)\<close> for a nil \<open>m\<close> of type \<open>map[string]any\<close>: an object
  fills the map, the literal null leaves it nil without error, every other input is an
  error and leaves it nil.
\<close>

definition UnmarshalMap :: "JSONText \<Rightarrow> string + gomap" where
  "UnmarshalMap data =
     (case data of
        None \<Rightarrow> Inl ''invalid JSON''
      | Some ANil \<Rightarrow> Inr None
      | Some (AMap kvs) \<Rightarrow> Inr (Some kvs)
      | Some _ \<Rightarrow> Inl ''cannot unmarshal into map'')"

subsection \<open>The conversation model (genai)\<close>

datatype panic = NilPointerDereference

record FunctionCall =
  fc_ID :: string
  fc_Args :: gomap
  fc_Name :: string

record FunctionResponse =
  fr_ID :: string
  fr_Name :: string
  fr_Response :: gomap

record Part =
  p_Text :: string
  p_FunctionCall :: "FunctionCall option"
  p_FunctionResponse :: "FunctionResponse option"

record Content =
  c_Role :: string
  c_Parts :: "Part option list"

datatype Schema =
  Schema (s_Type: string) (s_Description: string)
         (s_Properties: "(string \<times> Schema option) list")
         (s_Required: "string list") (s_Enum: "string list") (s_Items: "Schema option")

record FunctionDeclaration =
  fd_Name :: string
  fd_Description :: string
  fd_Parameters :: "Schema option"
  fd_ParametersJsonSchema :: any

record Tool =
  t_FunctionDeclarations :: "FunctionDeclaration option list"

record GenerateContentConfig =
  cfg_SystemInstruction :: "Content option"
  cfg_MaxOutputTokens :: "32 word"
  cfg_Temperature :: "real option"
  cfg_TopP :: "real option"
  cfg_StopSequences :: "string list"
  cfg_Tools :: "Tool option list"

record LLMRequest =
  req_Contents :: "Content option list"
  req_Config :: "GenerateContentConfig option"

record LLMResponse =
  resp_Content :: "Content option"
  resp_FinishReason :: FinishReason
  resp_UsageMetadata :: "UsageMetadata option"
  resp_Partial :: bool
  resp_TurnComplete :: bool

subsection \<open>The provider model (anthropic)\<close>

datatype ContentBlockParamUnion =
    NewTextBlock string
  | NewToolUseBlock string gomap string
  | NewToolResultBlock string JSONText bool

datatype MessageParamRole = MessageParamRoleUser | MessageParamRoleAssistant

record MessageParam =
  mp_Role :: MessageParamRole
  mp_Content :: "ContentBlockParamUnion list"

definition NewAssistantMessage :: "ContentBlockParamUnion list \<Rightarrow> MessageParam" where
  "NewAssistantMessage blocks = \<lparr> mp_Role = MessageParamRoleAssistant, mp_Content = blocks \<rparr>"

definition NewUserMessage :: "ContentBlockParamUnion list \<Rightarrow> MessageParam" where
  "NewUserMessage blocks = \<lparr> mp_Role = MessageParamRoleUser, mp_Content = blocks \<rparr>"

record TextBlockParam =
  tb_Type :: string
  tb_Text :: string

record ToolInputSchemaParam =
  is_Type :: string
  is_Properties :: any
  is_Required :: "string list"

record ToolParam =
  tp_Name :: string
  tp_Description :: string
  tp_InputSchema :: ToolInputSchemaParam

record ToolChoiceAutoParam =
  tc_Type :: string
  tc_DisableParallelToolUse :: bool

record MessageNewParams =
  mnp_Model :: string
  mnp_MaxTokens :: "64 word"
  mnp_Messages :: "MessageParam list"
  mnp_System :: "TextBlockParam list"
  mnp_Temperature :: "real option"
  mnp_TopP :: "real option"
  mnp_StopSequences :: "string list"
  mnp_Tools :: "ToolParam list"
  mnp_ToolChoice :: "ToolChoiceAutoParam option"

text \<open>
  A content block of a reply is the SDK's union struct: the discriminating \<open>Type\<close> and
  the fields of the variants the adapter reads (\<open>AsToolUse\<close> takes \<open>ID\<close>, \<open>Name\<close> and
  \<open>Input\<close> from the same struct).
\<close>

record ContentBlockUnion =
  cb_Type :: string
  cb_Text :: string
  cb_ID :: string
  cb_Name :: string
  cb_Input :: JSONText

record Message =
  msg_Content :: "ContentBlockUnion list"
  msg_StopReason :: StopReason
  msg_Usage :: Usage

text \<open>
  A stream event, again a union struct: its \<open>Type\<close>, the type and text of its delta,
  and the payloads an accumulator needs (the message of a \<open>message_start\<close>, the block
  of a \<open>content_block_start\<close>, the stop reason and usage of a \<open>message_delta\<close>).
\<close>

record MessageStreamEventUnion =
  ev_Type :: string
  ev_Delta_Type :: string
  ev_Delta_Text :: string
  ev_Delta_StopReason :: StopReason
  ev_Usage :: Usage
  ev_Message :: Message
  ev_ContentBlock :: ContentBlockUnion

text \<open>
  Go errors: a plain error with its message, and \<open>fmt.Errorf(prefix + "%w", err)\<close>,
  which wraps \<open>err\<close> and prints the prefix before the message of \<open>err\<close>.
\<close>

datatype error = ErrorNew string | Errorf string error

fun Error :: "error \<Rightarrow> string" where
  "Error (ErrorNew s) = s"
| "Error (Errorf prefix err) = prefix @ Error err"

fun Unwrap :: "error \<Rightarrow> error option" where
  "Unwrap (ErrorNew s) = None"
| "Unwrap (Errorf prefix err) = Some err"

section \<open>The request mapper\<close>

definition defaultMaxTokens :: "64 word" where
  "defaultMaxTokens = 8192"

subsection \<open>System prompt\<close>

text \<open>
  \<open>strings.Join\<close>: nothing for no element, the element itself for one, and otherwise the
  first element followed by separator and element for each further one.
\<close>

fun JoinRest :: "string \<Rightarrow> string \<Rightarrow> string list \<Rightarrow> string" where
  "JoinRest b sep [] = b"
| "JoinRest b sep (s # elems) = JoinRest (b @ sep @ s) sep elems"

fun Join :: "string list \<Rightarrow> string \<Rightarrow> string" where
  "Join [] sep = []"
| "Join [e] sep = e"
| "Join (e # elems) sep = JoinRest e sep elems"

fun systemFromContentLoop :: "string list \<Rightarrow> Part option list \<Rightarrow> panic + string list" where
  "systemFromContentLoop parts [] = Inr parts"
| "systemFromContentLoop parts (None # ps) = Inl NilPointerDereference"
| "systemFromContentLoop parts (Some p # ps) =
     (if p_Text p \<noteq> [] then systemFromContentLoop (parts @ [p_Text p]) ps
      else systemFromContentLoop parts ps)"

definition systemFromContent :: "Content \<Rightarrow> panic + TextBlockParam list" where
  "systemFromContent c =
     (case systemFromContentLoop [] (c_Parts c) of
        Inl e \<Rightarrow> Inl e
      | Inr parts \<Rightarrow>
          if length parts = 0 then Inr []
          else Inr [\<lparr> tb_Type = ''text'', tb_Text = Join parts [CHR 0x0A] \<rparr>])"

subsection \<open>Messages\<close>

text \<open>
  The switch of \<open>partsToBlocks\<close> takes the first case that holds: text before function
  call before function response; a part with none of the three adds no block
  (\<open>partBlock\<close> is the switch, the loop around it appends). The part pointer is
  dereferenced without a check.
\<close>

definition partBlock :: "Part \<Rightarrow> ContentBlockParamUnion option" where
  "partBlock p =
     (if p_Text p \<noteq> [] then Some (NewTextBlock (p_Text p))
      else case p_FunctionCall p of
        Some fc \<Rightarrow> Some (NewToolUseBlock (fc_ID fc) (fc_Args fc) (fc_Name fc))
      | None \<Rightarrow>
          (case p_FunctionResponse p of
             Some fr \<Rightarrow>
               Some (NewToolResultBlock (fr_ID fr) (Marshal (anyOfMap (fr_Response fr))) False)
           | None \<Rightarrow> None))"

fun partsToBlocksLoop ::
  "ContentBlockParamUnion list \<Rightarrow> Part option list \<Rightarrow> panic + ContentBlockParamUnion list"
where
  "partsToBlocksLoop blocks [] = Inr blocks"
| "partsToBlocksLoop blocks (None # ps) = Inl NilPointerDereference"
| "partsToBlocksLoop blocks (Some p # ps) =
     (case partBlock p of
        Some b \<Rightarrow> partsToBlocksLoop (blocks @ [b]) ps
      | None \<Rightarrow> partsToBlocksLoop blocks ps)"

definition partsToBlocks :: "Part option list \<Rightarrow> panic + ContentBlockParamUnion list" where
  "partsToBlocks parts = partsToBlocksLoop [] parts"

fun contentsToMessagesLoop ::
  "MessageParam list \<Rightarrow> Content option list \<Rightarrow> panic + MessageParam list"
where
  "contentsToMessagesLoop msgs [] = Inr msgs"
| "contentsToMessagesLoop msgs (None # cs) = contentsToMessagesLoop msgs cs"
| "contentsToMessagesLoop msgs (Some c # cs) =
     (case partsToBlocks (c_Parts c) of
        Inl e \<Rightarrow> Inl e
      | Inr blocks \<Rightarrow>
          if length blocks = 0 then contentsToMessagesLoop msgs cs
          else if c_Role c = ''model'' \<or> c_Role c = ''assistant''
          then contentsToMessagesLoop (msgs @ [NewAssistantMessage blocks]) cs
          else contentsToMessagesLoop (msgs @ [NewUserMessage blocks]) cs)"

definition contentsToMessages :: "Content option list \<Rightarrow> panic + MessageParam list" where
  "contentsToMessages contents = contentsToMessagesLoop [] contents"

text \<open>The message the loop of \<open>contentsToMessages\<close> appends for a content with blocks.\<close>

definition roleMessage :: "Content \<Rightarrow> ContentBlockParamUnion list \<Rightarrow> MessageParam" where
  "roleMessage c blocks =
     \<lparr> mp_Role = (if c_Role c = ''model'' \<or> c_Role c = ''assistant''
                   then MessageParamRoleAssistant else MessageParamRoleUser),
       mp_Content = blocks \<rparr>"

subsection \<open>Tools\<close>

text \<open>
  \<open>strings.ToLower\<close> on the ASCII letters; the schema types of genai are upper-case
  ASCII names.
\<close>

definition toLowerChar :: "char \<Rightarrow> char" where
  "toLowerChar c =
     (if (65::nat) \<le> of_char c \<and> of_char c \<le> (90::nat)
      then char_of (of_char c + (32::nat)) else c)"

definition ToLower :: "string \<Rightarrow> string" where
  "ToLower s = map toLowerChar s"

fun schemaToMap :: "Schema option \<Rightarrow> (string \<times> any) list" where
  "schemaToMap None = [(''type'', AString ''object'')]"
| "schemaToMap (Some (Schema t d props req enum items)) =
     [(''type'', AString (ToLower t))]
     @ (if d \<noteq> [] then [(''description'', AString d)] else [])
     @ (if length props > 0
        then [(''properties'', AMap (map (\<lambda>(k, v). (k, AMap (schemaToMap v))) props))]
        else [])
     @ (if length req > 0 then [(''required'', AStrings req)] else [])
     @ (if length enum > 0 then [(''enum'', AStrings enum)] else [])
     @ (case items of None \<Rightarrow> [] | Some i \<Rightarrow> [(''items'', AMap (schemaToMap (Some i)))])"

text \<open>The type assertions \<open>v.([]string)\<close>, \<open>v.([]any)\<close> and \<open>v.(string)\<close>.\<close>

definition asStrings :: "any \<Rightarrow> string list option" where
  "asStrings v = (case v of AStrings xs \<Rightarrow> Some xs | _ \<Rightarrow> None)"

definition asSlice :: "any \<Rightarrow> any list option" where
  "asSlice v = (case v of ASlice xs \<Rightarrow> Some xs | _ \<Rightarrow> None)"

definition asString :: "any \<Rightarrow> string option" where
  "asString v = (case v of AString s \<Rightarrow> Some s | _ \<Rightarrow> None)"

fun requiredStrings :: "string list \<Rightarrow> any list \<Rightarrow> string list" where
  "requiredStrings required [] = required"
| "requiredStrings required (r # raw) =
     (case asString r of
        Some s \<Rightarrow> requiredStrings (required @ [s]) raw
      | None \<Rightarrow> requiredStrings required raw)"

text \<open>
  The input schema of one function declaration, in the two versions of the extractor.
  The free function of convert.go always converts \<open>Parameters\<close> (a nil schema becomes
  the map with only \<open>type\<close>); the method of the adapter converts it when it is not nil
  and otherwise reads the raw \<open>ParametersJsonSchema\<close> through an encode and decode.
\<close>

definition declInputSchema_convert :: "FunctionDeclaration \<Rightarrow> ToolInputSchemaParam" where
  "declInputSchema_convert fd =
     (let schema = schemaToMap (fd_Parameters fd);
          inputSchema = \<lparr> is_Type = ''object'', is_Properties = index schema ''properties'',
                          is_Required = [] \<rparr>
      in case asStrings (index schema ''required'') of
           Some req \<Rightarrow> inputSchema \<lparr> is_Required := req \<rparr>
         | None \<Rightarrow> inputSchema)"

definition declInputSchema :: "FunctionDeclaration \<Rightarrow> ToolInputSchemaParam" where
  "declInputSchema fd =
     (let inputSchema = \<lparr> is_Type = ''object'', is_Properties = ANil, is_Required = [] \<rparr>
      in case fd_Parameters fd of
           Some s \<Rightarrow>
             (let schema = schemaToMap (Some s);
                  inputSchema = inputSchema \<lparr> is_Properties := index schema ''properties'' \<rparr>
              in case asStrings (index schema ''required'') of
                   Some req \<Rightarrow> inputSchema \<lparr> is_Required := req \<rparr>
                 | None \<Rightarrow> inputSchema)
         | None \<Rightarrow>
             if fd_ParametersJsonSchema fd \<noteq> ANil
             then (let schemaBytes = Marshal (fd_ParametersJsonSchema fd)
                   in case UnmarshalMap schemaBytes of
                        Inl err \<Rightarrow> inputSchema
                      | Inr schemaMap \<Rightarrow>
                          (let inputSchema =
                                 inputSchema \<lparr> is_Properties := indexMap schemaMap ''properties'' \<rparr>
                           in case asSlice (indexMap schemaMap ''required'') of
                                Some raw \<Rightarrow> inputSchema \<lparr> is_Required := requiredStrings [] raw \<rparr>
                              | None \<Rightarrow> inputSchema))
             else inputSchema)"

text \<open>
  Both versions run the same two nested loops, over the tools and over the function
  declarations of each, and append one tool per declaration; \<open>schemaOf\<close> is the part of
  the loop body in which they differ. Tool and declaration pointers are dereferenced
  without a check.
\<close>

fun declarationsLoop ::
  "(FunctionDeclaration \<Rightarrow> ToolInputSchemaParam) \<Rightarrow> ToolParam list \<Rightarrow>
   FunctionDeclaration option list \<Rightarrow> panic + ToolParam list"
where
  "declarationsLoop schemaOf result [] = Inr result"
| "declarationsLoop schemaOf result (None # fds) = Inl NilPointerDereference"
| "declarationsLoop schemaOf result (Some fd # fds) =
     declarationsLoop schemaOf
       (result @ [\<lparr> tp_Name = fd_Name fd, tp_Description = fd_Description fd,
                     tp_InputSchema = schemaOf fd \<rparr>])
       fds"

fun toolsLoop ::
  "(FunctionDeclaration \<Rightarrow> ToolInputSchemaParam) \<Rightarrow> ToolParam list \<Rightarrow>
   Tool option list \<Rightarrow> panic + ToolParam list"
where
  "toolsLoop schemaOf result [] = Inr result"
| "toolsLoop schemaOf result (None # tools) = Inl NilPointerDereference"
| "toolsLoop schemaOf result (Some t # tools) =
     (case declarationsLoop schemaOf result (t_FunctionDeclarations t) of
        Inl e \<Rightarrow> Inl e
      | Inr result' \<Rightarrow> toolsLoop schemaOf result' tools)"

definition extractTools_convert :: "Tool option list \<Rightarrow> panic + ToolParam list" where
  "extractTools_convert tools = toolsLoop declInputSchema_convert [] tools"

definition extractTools :: "Tool option list \<Rightarrow> panic + ToolParam list" where
  "extractTools tools = toolsLoop declInputSchema [] tools"

subsection \<open>Call parameters\<close>

text \<open>
  \<open>buildParams\<close> starts with a debug trace of the request. The logger discards its
  output unless debugging is on, but the arguments of each call are evaluated: the role
  of every content and the text of every part are read through their pointers.
\<close>

fun logParts :: "Part option list \<Rightarrow> panic + unit" where
  "logParts [] = Inr ()"
| "logParts (None # ps) = Inl NilPointerDereference"
| "logParts (Some p # ps) = logParts ps"

fun logContents :: "Content option list \<Rightarrow> panic + unit" where
  "logContents [] = Inr ()"
| "logContents (None # cs) = Inl NilPointerDereference"
| "logContents (Some c # cs) =
     (case logParts (c_Parts c) of Inl e \<Rightarrow> Inl e | Inr u \<Rightarrow> logContents cs)"

definition setSystem ::
  "GenerateContentConfig \<Rightarrow> MessageNewParams \<Rightarrow> panic + MessageNewParams" where
  "setSystem config params =
     (case cfg_SystemInstruction config of
        None \<Rightarrow> Inr params
      | Some c \<Rightarrow>
          (case systemFromContent c of
             Inl e \<Rightarrow> Inl e
           | Inr sys \<Rightarrow> if length sys > 0 then Inr (params \<lparr> mnp_System := sys \<rparr>) else Inr params))"

definition setMaxTokens :: "GenerateContentConfig \<Rightarrow> MessageNewParams \<Rightarrow> MessageNewParams" where
  "setMaxTokens config params =
     (if 0 < sint (cfg_MaxOutputTokens config)
      then params \<lparr> mnp_MaxTokens := scast (cfg_MaxOutputTokens config) \<rparr>
      else params)"

definition setSampling :: "GenerateContentConfig \<Rightarrow> MessageNewParams \<Rightarrow> MessageNewParams" where
  "setSampling config params =
     (let params = (case cfg_Temperature config of
                      Some t \<Rightarrow> params \<lparr> mnp_Temperature := Some t \<rparr>
                    | None \<Rightarrow> params);
          params = (case cfg_TopP config of
                      Some t \<Rightarrow> params \<lparr> mnp_TopP := Some t \<rparr>
                    | None \<Rightarrow> params)
      in if length (cfg_StopSequences config) > 0
         then params \<lparr> mnp_StopSequences := cfg_StopSequences config \<rparr>
         else params)"

definition setTools ::
  "GenerateContentConfig \<Rightarrow> MessageNewParams \<Rightarrow> panic + MessageNewParams" where
  "setTools config params =
     (case extractTools (cfg_Tools config) of
        Inl e \<Rightarrow> Inl e
      | Inr tools \<Rightarrow>
          if length tools > 0
          then Inr (params \<lparr> mnp_Tools := tools,
                      mnp_ToolChoice :=
                        Some \<lparr> tc_Type = ''auto'', tc_DisableParallelToolUse = True \<rparr> \<rparr>)
          else Inr params)"

definition buildParams :: "string \<Rightarrow> LLMRequest \<Rightarrow> panic + MessageNewParams" where
  "buildParams name req =
     (case logContents (req_Contents req) of
        Inl e \<Rightarrow> Inl e
      | Inr u \<Rightarrow>
     (case contentsToMessages (req_Contents req) of
        Inl e \<Rightarrow> Inl e
      | Inr msgs \<Rightarrow>
          (let params = \<lparr> mnp_Model = name, mnp_MaxTokens = defaultMaxTokens,
                           mnp_Messages = msgs, mnp_System = [], mnp_Temperature = None,
                           mnp_TopP = None, mnp_StopSequences = [], mnp_Tools = [],
                           mnp_ToolChoice = None \<rparr>
           in case req_Config req of
                None \<Rightarrow> Inr params
              | Some config \<Rightarrow>
                  (case setSystem config params of
                     Inl e \<Rightarrow> Inl e
                   | Inr params \<Rightarrow> setTools config (setSampling config (setMaxTokens config params))))))"

section \<open>The response mapper\<close>

text \<open>
  The switch over the type of a reply block: a text block and a tool-use block each give
  one part (\<open>blockPart\<close>), every other block none. The error of decoding the tool input
  is dropped, and the arguments are the nil map then.
\<close>

definition blockPart :: "ContentBlockUnion \<Rightarrow> Part option" where
  "blockPart block =
     (if cb_Type block = ''text''
      then Some \<lparr> p_Text = cb_Text block, p_FunctionCall = None, p_FunctionResponse = None \<rparr>
      else if cb_Type block = ''tool_use''
      then (let args = (case UnmarshalMap (cb_Input block) of Inl err \<Rightarrow> None | Inr m \<Rightarrow> m)
            in Some \<lparr> p_Text = [],
                 p_FunctionCall =
                   Some \<lparr> fc_ID = cb_ID block, fc_Args = args, fc_Name = cb_Name block \<rparr>,
                 p_FunctionResponse = None \<rparr>)
      else None)"

fun messagePartsLoop :: "Part option list \<Rightarrow> ContentBlockUnion list \<Rightarrow> Part option list" where
  "messagePartsLoop parts [] = parts"
| "messagePartsLoop parts (block # blocks) =
     (case blockPart block of
        Some part \<Rightarrow> messagePartsLoop (parts @ [Some part]) blocks
      | None \<Rightarrow> messagePartsLoop parts blocks)"

definition messageToLLMResponse :: "Message \<Rightarrow> LLMResponse" where
  "messageToLLMResponse msg =
     \<lparr> resp_Content = Some \<lparr> c_Role = ''model'', c_Parts = messagePartsLoop [] (msg_Content msg) \<rparr>,
       resp_FinishReason = stopToFinish (msg_StopReason msg),
       resp_UsageMetadata = Some (usageToMetadata (msg_Usage msg)),
       resp_Partial = False,
       resp_TurnComplete = False \<rparr>"

section \<open>The invocation layer\<close>

text \<open>
  The provider is a pair of functions: the blocking call returns a message or an error,
  the streaming call a list of events and the error the stream ended with, if any. The
  SDK's \<open>Message.Accumulate\<close> is a parameter \<open>accumulate\<close> of the streaming functions.

  An iterator is run by a consumer; the model returns the list of pairs handed to
  \<open>yield\<close>. The consumer is a function that sees everything yielded so far, the current
  pair last, and answers whether it wants more.
\<close>

type_synonym yielded = "LLMResponse option \<times> error option"
type_synonym consumer = "yielded list \<Rightarrow> bool"
type_synonym stream = "MessageStreamEventUnion list \<times> error option"
type_synonym accumulator = "MessageStreamEventUnion \<Rightarrow> Message \<Rightarrow> error + Message"

record claudeModel =
  m_name :: string
  m_MessagesNew :: "MessageNewParams \<Rightarrow> error + Message"
  m_MessagesNewStreaming :: "MessageNewParams \<Rightarrow> stream"

definition textDelta :: "MessageStreamEventUnion \<Rightarrow> string \<times> bool" where
  "textDelta event =
     (if ev_Type event \<noteq> ''content_block_delta'' then ([], False)
      else if ev_Delta_Type event = ''text_delta'' then (ev_Delta_Text event, True)
      else ([], False))"

definition partialResponse :: "string \<Rightarrow> LLMResponse" where
  "partialResponse delta =
     \<lparr> resp_Content =
         Some \<lparr> c_Role = ''model'',
                c_Parts = [Some \<lparr> p_Text = delta, p_FunctionCall = None,
                                   p_FunctionResponse = None \<rparr>] \<rparr>,
       resp_FinishReason = [],
       resp_UsageMetadata = None,
       resp_Partial = True,
       resp_TurnComplete = False \<rparr>"

definition zeroMessage :: Message where
  "zeroMessage =
     \<lparr> msg_Content = [], msg_StopReason = [],
       msg_Usage = \<lparr> u_InputTokens = 0, u_OutputTokens = 0 \<rparr> \<rparr>"

text \<open>
  The event loop of \<open>generateStream\<close>. It returns what it has yielded, and the
  accumulated message when it ran to the end of the events; \<open>None\<close> in its place when it
  returned from the function early, after an accumulation error or a consumer that
  stopped.
\<close>

fun generateStreamLoop ::
  "accumulator \<Rightarrow> consumer \<Rightarrow> Message \<Rightarrow> yielded list \<Rightarrow> MessageStreamEventUnion list \<Rightarrow>
   yielded list \<times> Message option"
where
  "generateStreamLoop accumulate yield msg ys [] = (ys, Some msg)"
| "generateStreamLoop accumulate yield msg ys (event # events) =
     (case accumulate event msg of
        Inl err \<Rightarrow> (ys @ [(None, Some (Errorf ''claude: accumulate: '' err))], None)
      | Inr msg' \<Rightarrow>
          (case textDelta event of
             (delta, True) \<Rightarrow>
               (let ys' = ys @ [(Some (partialResponse delta), None)]
                in if \<not> yield ys' then (ys', None)
                   else generateStreamLoop accumulate yield msg' ys' events)
           | (delta, False) \<Rightarrow> generateStreamLoop accumulate yield msg' ys events))"

definition generateStream :: "accumulator \<Rightarrow> stream \<Rightarrow> consumer \<Rightarrow> yielded list" where
  "generateStream accumulate stream yield =
     (case generateStreamLoop accumulate yield zeroMessage [] (fst stream) of
        (ys, None) \<Rightarrow> ys
      | (ys, Some msg) \<Rightarrow>
          (case snd stream of
             Some err \<Rightarrow> ys @ [(None, Some (Errorf ''claude: stream: '' err))]
           | None \<Rightarrow> ys @ [(Some ((messageToLLMResponse msg) \<lparr> resp_TurnComplete := True \<rparr>), None)]))"

text \<open>
  \<open>GenerateContent\<close> builds the parameters when it is called, so a panic of
  \<open>buildParams\<close> is a panic of the call; the provider is only contacted when the
  returned iterator is run.
\<close>

definition GenerateContent ::
  "accumulator \<Rightarrow> claudeModel \<Rightarrow> LLMRequest \<Rightarrow> bool \<Rightarrow> panic + (consumer \<Rightarrow> yielded list)" where
  "GenerateContent accumulate m req stream =
     (case buildParams (m_name m) req of
        Inl e \<Rightarrow> Inl e
      | Inr params \<Rightarrow>
          if stream then Inr (generateStream accumulate (m_MessagesNewStreaming m params))
          else Inr (\<lambda>yield.
                 case m_MessagesNew m params of
                   Inl err \<Rightarrow> [(None, Some (Errorf ''claude: '' err))]
                 | Inr msg \<Rightarrow> [(Some (messageToLLMResponse msg), None)]))"

subsection \<open>Accumulation and text of a turn\<close>

text \<open>
  \<open>Message.Accumulate\<close> belongs to the provider SDK, so the streaming functions above
  take it as a parameter and the theorems about them hold for every accumulator.
  \<open>accumulateText\<close> is an accumulator to run them with. It does what the SDK does with
  the events of a text reply: a \<open>message_start\<close> installs the message of the event, a
  \<open>content_block_start\<close> appends the block of the event, a \<open>message_delta\<close> sets stop
  reason and output tokens, and a \<open>content_block_delta\<close> is an error when the message
  has no block and otherwise adds a text delta to the last block. It leaves the message
  unchanged on every other event and on the other kinds of delta (tool input, thinking,
  citations).
\<close>

definition accumulateText :: accumulator where
  "accumulateText event msg =
     (if ev_Type event = ''message_start'' then Inr (ev_Message event)
      else if ev_Type event = ''message_delta''
      then Inr (msg \<lparr> msg_StopReason := ev_Delta_StopReason event,
                  msg_Usage := (msg_Usage msg) \<lparr> u_OutputTokens := u_OutputTokens (ev_Usage event) \<rparr> \<rparr>)
      else if ev_Type event = ''content_block_start''
      then Inr (msg \<lparr> msg_Content := msg_Content msg @ [ev_ContentBlock event] \<rparr>)
      else if ev_Type event = ''content_block_delta''
      then (if msg_Content msg = []
            then Inl (ErrorNew ''received event of type content_block_delta but there was no content block'')
            else if ev_Delta_Type event = ''text_delta''
            then Inr (msg \<lparr> msg_Content :=
                        butlast (msg_Content msg) @
                        [(last (msg_Content msg))
                           \<lparr> cb_Text := cb_Text (last (msg_Content msg)) @ ev_Delta_Text event \<rparr>] \<rparr>)
            else Inr msg)
      else Inr msg)"



definition responseText :: "LLMResponse \<Rightarrow> string" where
  "responseText resp =
     (case resp_Content resp of
        None \<Rightarrow> []
      | Some c \<Rightarrow> concat (map (\<lambda>p. case p of None \<Rightarrow> [] | Some part \<Rightarrow> p_Text part) (c_Parts c)))"



subsection \<open>From request blocks to reply blocks\<close>

text \<open>
  A round trip of a part needs a link that the adapter does not contain, since the
  provider sits between request and reply. \<open>wireBlock\<close> is the reply block that carries
  the content of a request block: the same text, or the same identifier and name with
  the JSON encoding of the input.
\<close>

fun wireBlock :: "ContentBlockParamUnion \<Rightarrow> ContentBlockUnion" where
  "wireBlock (NewTextBlock text) =
     \<lparr> cb_Type = ''text'', cb_Text = text, cb_ID = [], cb_Name = [], cb_Input = None \<rparr>"
| "wireBlock (NewToolUseBlock toolID input name) =
     \<lparr> cb_Type = ''tool_use'', cb_Text = [], cb_ID = toolID, cb_Name = name,
       cb_Input = Marshal (anyOfMap input) \<rparr>"
| "wireBlock (NewToolResultBlock toolUseID content isError) =
     \<lparr> cb_Type = ''tool_result'', cb_Text = [], cb_ID = toolUseID, cb_Name = [],
       cb_Input = None \<rparr>"

section \<open>Example inputs\<close>

text \<open>
  The conversation of the repository's test of \<open>contentsToMessages\<close>: a user text, a
  function call of the model and the function response, and a content with one empty
  part.
\<close>

definition exTextPart :: Part where
  "exTextPart = \<lparr> p_Text = ''Show spots'', p_FunctionCall = None, p_FunctionResponse = None \<rparr>"

definition exUserText :: Content where
  "exUserText = \<lparr> c_Role = ''user'', c_Parts = [Some exTextPart] \<rparr>"

definition exCallPart :: Part where
  "exCallPart =
     \<lparr> p_Text = [],
       p_FunctionCall =
         Some \<lparr> fc_ID = ''toolu_01A'', fc_Args = Some [(''name'', AString ''all'')],
                fc_Name = ''get_spots'' \<rparr>,
       p_FunctionResponse = None \<rparr>"

definition exModelCall :: Content where
  "exModelCall = \<lparr> c_Role = ''model'', c_Parts = [Some exCallPart] \<rparr>"

definition exToolResult :: Content where
  "exToolResult =
     \<lparr> c_Role = ''user'',
       c_Parts = [Some \<lparr> p_Text = [], p_FunctionCall = None,
                          p_FunctionResponse =
                            Some \<lparr> fr_ID = ''toolu_01A'', fr_Name = ''get_spots'',
                                   fr_Response = Some [(''result'', AString ''Ocean Beach'')] \<rparr> \<rparr>] \<rparr>"


text \<open>
  The system instruction of the repository's test of \<open>systemFromContent\<close>, with an
  empty part between its two texts, and a request that carries it.
\<close>

definition exSystem :: Content where
  "exSystem =
     \<lparr> c_Role = [],
       c_Parts = [Some \<lparr> p_Text = ''You are a surf analyst.'', p_FunctionCall = None,
                          p_FunctionResponse = None \<rparr>,
                  Some \<lparr> p_Text = [], p_FunctionCall = None, p_FunctionResponse = None \<rparr>,
                  Some \<lparr> p_Text = ''Rate conditions.'', p_FunctionCall = None,
                          p_FunctionResponse = None \<rparr>] \<rparr>"

definition exConfig :: GenerateContentConfig where
  "exConfig =
     \<lparr> cfg_SystemInstruction = Some exSystem, cfg_MaxOutputTokens = 1024,
       cfg_Temperature = None, cfg_TopP = None, cfg_StopSequences = [], cfg_Tools = [] \<rparr>"

definition exRequest :: LLMRequest where
  "exRequest = \<lparr> req_Contents = [Some exUserText], req_Config = Some exConfig \<rparr>"

text \<open>A tool with one function declaration that has a structured schema.\<close>

definition exDeclaration :: FunctionDeclaration where
  "exDeclaration =
     \<lparr> fd_Name = ''get_spots_of_interest'',
       fd_Description = ''Returns spots of interest.'',
       fd_Parameters =
         Some (Schema ''OBJECT'' []
                 [(''name'', Some (Schema ''STRING'' ''Spot name'' [] [] [] None))]
                 [''name''] [] None),
       fd_ParametersJsonSchema = ANil \<rparr>"

definition exTool :: Tool where
  "exTool = \<lparr> t_FunctionDeclarations = [Some exDeclaration] \<rparr>"

text \<open>
  The replies of the repository's tests: a text reply, a reply with a tool call, and the
  events of a streamed text reply with the message they add up to. \<open>exModel\<close> answers
  every call with them, \<open>exFailing\<close> answers with an error.
\<close>

definition exTextBlock :: "string \<Rightarrow> ContentBlockUnion" where
  "exTextBlock text =
     \<lparr> cb_Type = ''text'', cb_Text = text, cb_ID = [], cb_Name = [], cb_Input = None \<rparr>"

definition exReply :: Message where
  "exReply =
     \<lparr> msg_Content = [exTextBlock ''Paris''], msg_StopReason = ''end_turn'',
       msg_Usage = \<lparr> u_InputTokens = 14, u_OutputTokens = 4 \<rparr> \<rparr>"



definition exEvent :: "string \<Rightarrow> MessageStreamEventUnion" where
  "exEvent type =
     \<lparr> ev_Type = type, ev_Delta_Type = [], ev_Delta_Text = [], ev_Delta_StopReason = [],
       ev_Usage = \<lparr> u_InputTokens = 0, u_OutputTokens = 0 \<rparr>,
       ev_Message = \<lparr> msg_Content = [], msg_StopReason = [],
                       msg_Usage = \<lparr> u_InputTokens = 10, u_OutputTokens = 1 \<rparr> \<rparr>,
       ev_ContentBlock = exTextBlock [] \<rparr>"

definition exTextDelta :: "string \<Rightarrow> MessageStreamEventUnion" where
  "exTextDelta text =
     (exEvent ''content_block_delta'') \<lparr> ev_Delta_Type := ''text_delta'', ev_Delta_Text := text \<rparr>"

definition exEvents :: "MessageStreamEventUnion list" where
  "exEvents =
     [exEvent ''message_start'', exEvent ''content_block_start'', exEvent ''ping'',
      exTextDelta ''Hello'', exTextDelta '' world'', exEvent ''content_block_stop'',
      (exEvent ''message_delta'')
        \<lparr> ev_Delta_StopReason := ''end_turn'',
          ev_Usage := \<lparr> u_InputTokens = 0, u_OutputTokens = 2 \<rparr> \<rparr>,
      exEvent ''message_stop'']"


definition exModel :: claudeModel where
  "exModel =
     \<lparr> m_name = ''claude-sonnet-4-5'',
       m_MessagesNew = (\<lambda>params. Inr exReply),
       m_MessagesNewStreaming = (\<lambda>params. (exEvents, None)) \<rparr>"

definition exFailing :: claudeModel where
  "exFailing =
     \<lparr> m_name = ''claude-sonnet-4-5'',
       m_MessagesNew = (\<lambda>params. Inl (ErrorNew ''401 Unauthorized'')),
       m_MessagesNewStreaming = (\<lambda>params. ([], Some (ErrorNew ''401 Unauthorized''))) \<rparr>"

section \<open>Finish-reason normalization\<close>

text \<open>
  C1, as stated: natural stop, length limit, tool invocation and other receive pairwise
  distinct codes. The code gives tool invocation the code of natural stop.
\<close>

theorem stopToFinish_tool_use_not_distinct:
  "stopToFinish StopReasonToolUse = stopToFinish StopReasonEndTurn"
  by (simp add: stopToFinish_def StopReasonToolUse_def StopReasonEndTurn_def
      StopReasonMaxTokens_def)

text \<open>
  C1, amended: \<open>stopToFinish\<close> is total and uses three codes. Natural stop and tool
  invocation both become \<open>STOP\<close>, the length limit becomes \<open>MAX_TOKENS\<close>, every other
  stop reason becomes \<open>OTHER\<close>, and these three codes are pairwise distinct.
\<close>

theorem stopToFinish_three_codes:
  "stopToFinish StopReasonEndTurn = FinishReasonStop \<and>
   stopToFinish StopReasonToolUse = FinishReasonStop \<and>
   stopToFinish StopReasonMaxTokens = FinishReasonMaxTokens \<and>
   (reason \<notin> {StopReasonEndTurn, StopReasonToolUse, StopReasonMaxTokens} \<longrightarrow>
      stopToFinish reason = FinishReasonOther) \<and>
   distinct [FinishReasonStop, FinishReasonMaxTokens, FinishReasonOther]"
  by (simp add: stopToFinish_def StopReasonEndTurn_def StopReasonToolUse_def
      StopReasonMaxTokens_def FinishReasonStop_def FinishReasonMaxTokens_def
      FinishReasonOther_def)

theorem stopToFinish_three_codes_witness:
  "''refusal'' \<notin> {StopReasonEndTurn, StopReasonToolUse, StopReasonMaxTokens} \<and>
   stopToFinish ''refusal'' = FinishReasonOther"
  using stopToFinish_three_codes [of "''refusal''"]
  by (simp add: StopReasonEndTurn_def StopReasonToolUse_def StopReasonMaxTokens_def)

section \<open>Token-usage normalization\<close>

lemma uint_ucast_64_32: "uint (ucast (x :: 64 word) :: 32 word) = sint x mod 2 ^ 32"
proof -
  have "uint (ucast x :: 32 word) = take_bit 32 (uint x)"
    by (simp add: unsigned_ucast_eq)
  also have "\<dots> = take_bit 32 (signed_take_bit 63 (uint x))"
    by (simp add: take_bit_signed_take_bit)
  also have "\<dots> = take_bit 32 (sint x)"
    by (simp add: sint_uint)
  finally show ?thesis by (simp add: take_bit_eq_mod)
qed

lemma uint_ucast_add_64_32:
  "uint (ucast (x + y :: 64 word) :: 32 word) = (sint x + sint y) mod 2 ^ 32"
proof -
  have "sint (x + y) = signed_take_bit 63 (sint x + sint y)"
    by (simp add: sint_word_ariths)
  then have "take_bit 32 (sint (x + y)) = take_bit 32 (sint x + sint y)"
    by (simp add: take_bit_signed_take_bit)
  then show ?thesis
    by (simp add: uint_ucast_64_32 take_bit_eq_mod)
qed

lemma ucast_add_64_32: "(ucast (x + y :: 64 word) :: 32 word) = ucast x + ucast y"
proof (rule word_uint_eqI)
  have "uint (ucast x + ucast y :: 32 word) =
        (uint (ucast x :: 32 word) + uint (ucast y :: 32 word)) mod 2 ^ 32"
    by (simp add: uint_word_ariths)
  also have "\<dots> = (sint x + sint y) mod 2 ^ 32"
    by (simp only: uint_ucast_64_32 mod_add_eq)
  finally show "uint (ucast (x + y) :: 32 word) = uint (ucast x + ucast y :: 32 word)"
    by (simp only: uint_ucast_add_64_32)
qed

text \<open>
  C5: the prompt count is the input count, the candidates count the output count and the
  total their sum, each reduced modulo \<open>2 ^ 32\<close> by the conversion from 64 to 32 bits:
  the unsigned value of every 32-bit field is the signed 64-bit source value modulo
  \<open>2 ^ 32\<close>, and the total is the 32-bit sum of the other two fields.
\<close>

theorem usageToMetadata_mod:
  "uint (um_PromptTokenCount (usageToMetadata u)) = sint (u_InputTokens u) mod 2 ^ 32 \<and>
   uint (um_CandidatesTokenCount (usageToMetadata u)) = sint (u_OutputTokens u) mod 2 ^ 32 \<and>
   uint (um_TotalTokenCount (usageToMetadata u)) =
     (sint (u_InputTokens u) + sint (u_OutputTokens u)) mod 2 ^ 32 \<and>
   um_TotalTokenCount (usageToMetadata u) =
     um_PromptTokenCount (usageToMetadata u) + um_CandidatesTokenCount (usageToMetadata u)"
proof (intro conjI)
  show "uint (um_PromptTokenCount (usageToMetadata u)) = sint (u_InputTokens u) mod 2 ^ 32"
    by (simp add: usageToMetadata_def uint_ucast_64_32)
  show "uint (um_CandidatesTokenCount (usageToMetadata u)) = sint (u_OutputTokens u) mod 2 ^ 32"
    by (simp add: usageToMetadata_def uint_ucast_64_32)
  show "uint (um_TotalTokenCount (usageToMetadata u)) =
        (sint (u_InputTokens u) + sint (u_OutputTokens u)) mod 2 ^ 32"
    by (simp add: usageToMetadata_def uint_ucast_add_64_32)
  show "um_TotalTokenCount (usageToMetadata u) =
        um_PromptTokenCount (usageToMetadata u) + um_CandidatesTokenCount (usageToMetadata u)"
    by (simp add: usageToMetadata_def ucast_add_64_32)
qed

section \<open>Messages of the request\<close>

lemma map_sum_append_Nil: "map_sum id ((@) []) x = x"
  by (cases x) simp_all

lemma map_sum_append_single: "map_sum id ((@) [m]) x = map_sum id ((#) m) x"
  by (cases x) simp_all

lemma partsToBlocksLoop_append:
  "partsToBlocksLoop (a @ b) ps = map_sum id ((@) a) (partsToBlocksLoop b ps)"
proof (induction ps arbitrary: b)
  case Nil
  show ?case by simp
next
  case (Cons x ps)
  show ?case
  proof (cases x)
    case None
    then show ?thesis by simp
  next
    case (Some p)
    show ?thesis
    proof (cases "partBlock p")
      case None
      with Some Cons.IH [of b] show ?thesis by simp
    next
      case (Some y)
      with \<open>x = Some p\<close> Cons.IH [of "b @ [y]"] show ?thesis by simp
    qed
  qed
qed

lemma partsToBlocks_Nil: "partsToBlocks [] = Inr []"
  by (simp add: partsToBlocks_def)

lemma partsToBlocks_None: "partsToBlocks (None # ps) = Inl NilPointerDereference"
  by (simp add: partsToBlocks_def)

lemma partsToBlocks_Some:
  "partsToBlocks (Some p # ps) =
     map_sum id ((@) (case partBlock p of None \<Rightarrow> [] | Some b \<Rightarrow> [b])) (partsToBlocks ps)"
proof (cases "partBlock p")
  case None
  then show ?thesis by (simp add: partsToBlocks_def map_sum_append_Nil)
next
  case (Some b)
  then show ?thesis
    using partsToBlocksLoop_append [of "[b]" "[]" ps] by (simp add: partsToBlocks_def)
qed

lemma partsToBlocks_closed:
  "partsToBlocks ps =
     (if None \<in> set ps then Inl NilPointerDereference
      else Inr (List.map_filter (\<lambda>p. Option.bind p partBlock) ps))"
proof (induction ps)
  case Nil
  show ?case by (simp add: partsToBlocks_Nil)
next
  case (Cons x ps)
  show ?case
  proof (cases x)
    case None
    then show ?thesis by (simp add: partsToBlocks_None)
  next
    case (Some p)
    then show ?thesis
      by (cases "partBlock p") (simp_all add: partsToBlocks_Some Cons.IH)
  qed
qed

lemma contentsToMessagesLoop_append:
  "contentsToMessagesLoop (a @ b) cs = map_sum id ((@) a) (contentsToMessagesLoop b cs)"
proof (induction cs arbitrary: b)
  case Nil
  show ?case by simp
next
  case (Cons x cs)
  show ?case
  proof (cases x)
    case None
    then show ?thesis by (simp add: Cons.IH)
  next
    case (Some c)
    show ?thesis
    proof (cases "partsToBlocks (c_Parts c)")
      case (Inl e)
      with Some show ?thesis by simp
    next
      case (Inr blocks)
      with Some Cons.IH [of b] Cons.IH [of "b @ [NewAssistantMessage blocks]"]
        Cons.IH [of "b @ [NewUserMessage blocks]"]
      show ?thesis by simp
    qed
  qed
qed

lemma contentsToMessages_Nil: "contentsToMessages [] = Inr []"
  by (simp add: contentsToMessages_def)

lemma contentsToMessages_None: "contentsToMessages (None # cs) = contentsToMessages cs"
  by (simp add: contentsToMessages_def)

lemma contentsToMessages_Some:
  "contentsToMessages (Some c # cs) =
     (case partsToBlocks (c_Parts c) of
        Inl e \<Rightarrow> Inl e
      | Inr blocks \<Rightarrow>
          if blocks = [] then contentsToMessages cs
          else map_sum id ((#) (roleMessage c blocks)) (contentsToMessages cs))"
proof (cases "partsToBlocks (c_Parts c)")
  case (Inl e)
  then show ?thesis by (simp add: contentsToMessages_def)
next
  case (Inr blocks)
  have "contentsToMessagesLoop [m] cs = map_sum id ((#) m) (contentsToMessagesLoop [] cs)" for m
    using contentsToMessagesLoop_append [of "[m]" "[]" cs] by (simp add: map_sum_append_single)
  with Inr show ?thesis
    by (simp add: contentsToMessages_def roleMessage_def NewAssistantMessage_def
        NewUserMessage_def)
qed

lemma contentsToMessages_append:
  "contentsToMessages (xs @ ys) =
     (case contentsToMessages xs of
        Inl e \<Rightarrow> Inl e
      | Inr ms \<Rightarrow> map_sum id ((@) ms) (contentsToMessages ys))"
proof (induction xs)
  case Nil
  show ?case by (simp add: contentsToMessages_Nil map_sum_append_Nil)
next
  case (Cons x xs)
  show ?case
  proof (cases x)
    case None
    then show ?thesis by (simp add: contentsToMessages_None Cons.IH)
  next
    case (Some c)
    show ?thesis
    proof (cases "partsToBlocks (c_Parts c)")
      case (Inl e)
      with Some show ?thesis by (simp add: contentsToMessages_Some)
    next
      case (Inr blocks)
      with Some show ?thesis
        by (cases "contentsToMessages xs"; cases "contentsToMessages ys")
           (simp_all add: contentsToMessages_Some Cons.IH)
    qed
  qed
qed


text \<open>
  C6: a non-nil content whose parts give at least one block becomes exactly one message,
  at its place in the sequence, with the blocks of its parts: an assistant message when
  its role is \<open>model\<close> or \<open>assistant\<close>, a user message for every other role
  (\<open>user\<close>, the empty role, any unknown one).
\<close>

theorem contentsToMessages_role:
  assumes "contentsToMessages pre = Inr before"
    and "partsToBlocks (c_Parts c) = Inr blocks"
    and "blocks \<noteq> []"
    and "contentsToMessages post = Inr after"
  shows "contentsToMessages (pre @ Some c # post) =
           Inr (before @
                \<lparr> mp_Role = (if c_Role c = ''model'' \<or> c_Role c = ''assistant''
                              then MessageParamRoleAssistant else MessageParamRoleUser),
                  mp_Content = blocks \<rparr> # after)"
  using assms
  by (simp add: contentsToMessages_append contentsToMessages_Some roleMessage_def)

theorem contentsToMessages_role_witness:
  "contentsToMessages [Some exUserText] =
     Inr [\<lparr> mp_Role = MessageParamRoleUser, mp_Content = [NewTextBlock ''Show spots''] \<rparr>] \<and>
   partsToBlocks (c_Parts exModelCall) =
     Inr [NewToolUseBlock ''toolu_01A'' (Some [(''name'', AString ''all'')]) ''get_spots''] \<and>
   contentsToMessages [Some exToolResult] =
     Inr [\<lparr> mp_Role = MessageParamRoleUser,
            mp_Content = [NewToolResultBlock ''toolu_01A''
                            (Some (AMap [(''result'', AString ''Ocean Beach'')])) False] \<rparr>] \<and>
   contentsToMessages [Some exUserText, Some exModelCall, Some exToolResult] =
     Inr [\<lparr> mp_Role = MessageParamRoleUser, mp_Content = [NewTextBlock ''Show spots''] \<rparr>,
          \<lparr> mp_Role = MessageParamRoleAssistant,
            mp_Content = [NewToolUseBlock ''toolu_01A'' (Some [(''name'', AString ''all'')])
                            ''get_spots''] \<rparr>,
          \<lparr> mp_Role = MessageParamRoleUser,
            mp_Content = [NewToolResultBlock ''toolu_01A''
                            (Some (AMap [(''result'', AString ''Ocean Beach'')])) False] \<rparr>]"
proof -
  have pre: "contentsToMessages [Some exUserText] =
     Inr [\<lparr> mp_Role = MessageParamRoleUser, mp_Content = [NewTextBlock ''Show spots''] \<rparr>]"
    by (simp add: contentsToMessages_def partsToBlocks_def partBlock_def exUserText_def exTextPart_def
        NewUserMessage_def)
  have blocks: "partsToBlocks (c_Parts exModelCall) =
     Inr [NewToolUseBlock ''toolu_01A'' (Some [(''name'', AString ''all'')]) ''get_spots'']"
    by (simp add: partsToBlocks_def partBlock_def exModelCall_def exCallPart_def)
  have post: "contentsToMessages [Some exToolResult] =
     Inr [\<lparr> mp_Role = MessageParamRoleUser,
            mp_Content = [NewToolResultBlock ''toolu_01A''
                            (Some (AMap [(''result'', AString ''Ocean Beach'')])) False] \<rparr>]"
    by (simp add: contentsToMessages_def partsToBlocks_def partBlock_def exToolResult_def
        NewUserMessage_def Marshal_def anyOfMap_def)
  show ?thesis
    using contentsToMessages_role [OF pre blocks _ post] pre blocks post
    by (simp add: exModelCall_def)
qed




section \<open>Call parameters of the request\<close>

lemma JoinRest_eq: "JoinRest b sep elems = b @ concat (map ((@) sep) elems)"
  by (induction elems arbitrary: b) simp_all

lemma Join_eq: "elems \<noteq> [] \<Longrightarrow> Join elems sep = hd elems @ concat (map ((@) sep) (tl elems))"
proof (cases elems)
  case Nil
  assume "elems \<noteq> []"
  with Nil show ?thesis by simp
next
  case (Cons e es)
  then show ?thesis by (cases es) (simp_all add: JoinRest_eq)
qed

lemma append_single_eq_Cons: "(@) [c] = (#) c"
  by (rule ext) simp

lemma systemFromContentLoop_eq:
  "systemFromContentLoop parts ps =
     (if None \<in> set ps then Inl NilPointerDereference
      else Inr (parts @ filter (\<lambda>t. t \<noteq> []) (map p_Text (List.map_filter (\<lambda>p. p) ps))))"
proof (induction ps arbitrary: parts)
  case Nil
  show ?case by (simp add: map_filter_simps)
next
  case (Cons x ps)
  show ?case
  proof (cases x)
    case None
    then show ?thesis by simp
  next
    case (Some q)
    then show ?thesis
      by (cases "p_Text q = []") (simp_all add: Cons.IH map_filter_simps)
  qed
qed

lemma systemFromContent_eq:
  "systemFromContent c =
     (if None \<in> set (c_Parts c) then Inl NilPointerDereference
      else Inr (let texts = filter (\<lambda>t. t \<noteq> []) (map p_Text (List.map_filter (\<lambda>p. p) (c_Parts c)))
                in if texts = [] then []
                   else [\<lparr> tb_Type = ''text'',
                           tb_Text = hd texts @ concat (map ((#) CHR 0x0A) (tl texts)) \<rparr>]))"
proof (cases "None \<in> set (c_Parts c)")
  case True
  then show ?thesis by (simp add: systemFromContent_def systemFromContentLoop_eq)
next
  case False
  define texts where "texts = filter (\<lambda>t. t \<noteq> []) (map p_Text (List.map_filter (\<lambda>p. p) (c_Parts c)))"
  from False have loop: "systemFromContentLoop [] (c_Parts c) = Inr texts"
    unfolding texts_def by (simp only: systemFromContentLoop_eq if_False append_Nil)
  have "systemFromContent c =
          Inr (if texts = [] then []
               else [\<lparr> tb_Type = ''text'',
                       tb_Text = hd texts @ concat (map ((#) CHR 0x0A) (tl texts)) \<rparr>])"
    by (cases "texts = []")
       (simp_all add: systemFromContent_def loop Join_eq append_single_eq_Cons)
  with False show ?thesis
    unfolding texts_def Let_def by (simp only: if_False)
qed

lemma setSystem_fields:
  "setSystem config params = Inr params' \<Longrightarrow>
     mnp_MaxTokens params' = mnp_MaxTokens params \<and> mnp_Messages params' = mnp_Messages params"
  by (auto simp: setSystem_def split: option.splits sum.splits if_splits)

lemma setMaxTokens_fields:
  "mnp_System (setMaxTokens config params) = mnp_System params \<and>
   mnp_Messages (setMaxTokens config params) = mnp_Messages params"
  by (simp add: setMaxTokens_def)

lemma setSampling_fields:
  "mnp_System (setSampling config params) = mnp_System params \<and>
   mnp_MaxTokens (setSampling config params) = mnp_MaxTokens params \<and>
   mnp_Messages (setSampling config params) = mnp_Messages params"
  by (simp add: setSampling_def Let_def split: option.splits)

lemma setTools_fields:
  "setTools config params = Inr params' \<Longrightarrow>
     mnp_System params' = mnp_System params \<and> mnp_MaxTokens params' = mnp_MaxTokens params \<and>
     mnp_Messages params' = mnp_Messages params"
  by (auto simp: setTools_def split: sum.splits if_splits)

text \<open>The shape of a successful run of \<open>buildParams\<close>.\<close>

lemma buildParams_Inr_None:
  assumes "buildParams name req = Inr params" and "req_Config req = None"
  shows "mnp_MaxTokens params = defaultMaxTokens \<and> mnp_System params = [] \<and>
         contentsToMessages (req_Contents req) = Inr (mnp_Messages params)"
  using assms by (auto simp: buildParams_def split: sum.splits)

lemma buildParams_Inr_Some:
  assumes "buildParams name req = Inr params" and "req_Config req = Some config"
  shows "\<exists>msgs p1.
           contentsToMessages (req_Contents req) = Inr msgs \<and>
           setSystem config
             \<lparr> mnp_Model = name, mnp_MaxTokens = defaultMaxTokens, mnp_Messages = msgs,
               mnp_System = [], mnp_Temperature = None, mnp_TopP = None,
               mnp_StopSequences = [], mnp_Tools = [], mnp_ToolChoice = None \<rparr> = Inr p1 \<and>
           setTools config (setSampling config (setMaxTokens config p1)) = Inr params"
  using assms by (auto simp: buildParams_def split: sum.splits)

lemma logParts_returns: "None \<notin> set ps \<Longrightarrow> logParts ps = Inr ()"
proof (induction ps)
  case Nil
  show ?case by simp
next
  case (Cons x ps)
  then show ?case by (cases x) simp_all
qed

lemma logContents_returns:
  "None \<notin> set cs \<Longrightarrow> (\<forall>c. Some c \<in> set cs \<longrightarrow> None \<notin> set (c_Parts c)) \<Longrightarrow>
     logContents cs = Inr ()"
proof (induction cs)
  case Nil
  show ?case by simp
next
  case (Cons x cs)
  then show ?case by (cases x) (simp_all add: logParts_returns)
qed

lemma contentsToMessages_returns:
  "(\<forall>c. Some c \<in> set cs \<longrightarrow> None \<notin> set (c_Parts c)) \<Longrightarrow>
     \<exists>msgs. contentsToMessages cs = Inr msgs"
proof (induction cs)
  case Nil
  show ?case by (simp add: contentsToMessages_Nil)
next
  case (Cons x cs)
  then obtain msgs where rest: "contentsToMessages cs = Inr msgs" by auto
  show ?case
  proof (cases x)
    case None
    with rest show ?thesis by (simp add: contentsToMessages_None)
  next
    case (Some c)
    with Cons.prems have "None \<notin> set (c_Parts c)" by simp
    with Some rest show ?thesis
      by (simp add: contentsToMessages_Some partsToBlocks_closed)
  qed
qed

lemma declarationsLoop_returns:
  "None \<notin> set fds \<Longrightarrow> \<exists>tools. declarationsLoop schemaOf result fds = Inr tools"
proof (induction fds arbitrary: result)
  case Nil
  show ?case by simp
next
  case (Cons x fds)
  then show ?case by (cases x) simp_all
qed

lemma toolsLoop_returns:
  "None \<notin> set tools \<Longrightarrow> (\<forall>t. Some t \<in> set tools \<longrightarrow> None \<notin> set (t_FunctionDeclarations t)) \<Longrightarrow>
     \<exists>result'. toolsLoop schemaOf result tools = Inr result'"
proof (induction tools arbitrary: result)
  case Nil
  show ?case by simp
next
  case (Cons x tools)
  show ?case
  proof (cases x)
    case None
    with Cons.prems show ?thesis by simp
  next
    case (Some t)
    with Cons.prems have "None \<notin> set (t_FunctionDeclarations t)" by simp
    then obtain r where "declarationsLoop schemaOf result (t_FunctionDeclarations t) = Inr r"
      using declarationsLoop_returns by blast
    moreover from Cons.prems have "\<exists>result'. toolsLoop schemaOf r tools = Inr result'"
      by (intro Cons.IH) auto
    ultimately show ?thesis using Some by simp
  qed
qed

text \<open>
  \<open>buildParams\<close> returns parameters for every request without nil pointers among its
  contents, parts, tools and function declarations.
\<close>

lemma buildParams_returns:
  assumes "None \<notin> set (req_Contents req)"
    and "\<forall>c. Some c \<in> set (req_Contents req) \<longrightarrow> None \<notin> set (c_Parts c)"
    and "\<forall>config. req_Config req = Some config \<longrightarrow>
           (\<forall>c. cfg_SystemInstruction config = Some c \<longrightarrow> None \<notin> set (c_Parts c)) \<and>
           None \<notin> set (cfg_Tools config) \<and>
           (\<forall>t. Some t \<in> set (cfg_Tools config) \<longrightarrow> None \<notin> set (t_FunctionDeclarations t))"
  shows "\<exists>params. buildParams name req = Inr params"
proof -
  from assms(1,2) have log: "logContents (req_Contents req) = Inr ()"
    by (rule logContents_returns)
  from assms(2) obtain msgs where msgs: "contentsToMessages (req_Contents req) = Inr msgs"
    using contentsToMessages_returns by blast
  show ?thesis
  proof (cases "req_Config req")
    case None
    with log msgs show ?thesis by (simp add: buildParams_def)
  next
    case (Some config)
    with assms(3) have sysparts: "\<forall>c. cfg_SystemInstruction config = Some c \<longrightarrow> None \<notin> set (c_Parts c)"
      and tools: "None \<notin> set (cfg_Tools config)"
        "\<forall>t. Some t \<in> set (cfg_Tools config) \<longrightarrow> None \<notin> set (t_FunctionDeclarations t)"
      by simp_all
    have sys: "\<exists>p1. setSystem config p0 = Inr p1" for p0
      using sysparts
      by (cases "cfg_SystemInstruction config") (simp_all add: setSystem_def systemFromContent_eq Let_def)
    from tools obtain ts where "extractTools (cfg_Tools config) = Inr ts"
      unfolding extractTools_def using toolsLoop_returns by blast
    then have tl: "\<exists>p2. setTools config p = Inr p2" for p
      by (simp add: setTools_def)
    from sys obtain p1 where
      "setSystem config
         \<lparr> mnp_Model = name, mnp_MaxTokens = defaultMaxTokens, mnp_Messages = msgs,
           mnp_System = [], mnp_Temperature = None, mnp_TopP = None,
           mnp_StopSequences = [], mnp_Tools = [], mnp_ToolChoice = None \<rparr> = Inr p1"
      by blast
    moreover from tl obtain p2 where
      "setTools config (setSampling config (setMaxTokens config p1)) = Inr p2"
      by blast
    ultimately show ?thesis
      using log msgs Some by (simp add: buildParams_def)
  qed
qed

lemma logContents_None: "None \<in> set cs \<Longrightarrow> logContents cs = Inl NilPointerDereference"
proof (induction cs)
  case Nil
  then show ?case by simp
next
  case (Cons x cs)
  show ?case
  proof (cases x)
    case None
    then show ?thesis by simp
  next
    case (Some c)
    with Cons show ?thesis
      by (cases "logParts (c_Parts c)") (auto intro: panic.exhaust)
  qed
qed

text \<open>A nil content stops \<open>buildParams\<close> in its debug trace.\<close>

lemma buildParams_nil_content:
  "None \<in> set (req_Contents req) \<Longrightarrow> buildParams name req = Inl NilPointerDereference"
  by (simp add: buildParams_def logContents_None)

text \<open>
  C7: the parameters \<open>buildParams\<close> returns have \<open>MaxTokens\<close> equal to the
  \<open>MaxOutputTokens\<close> of the config when the config is not nil and that value is
  positive, and equal to the default 8192 otherwise (no config, or a value of zero or
  less). The values are the signed readings of the 64-bit and 32-bit fields.
\<close>

theorem buildParams_MaxTokens:
  assumes "buildParams name req = Inr params"
  shows "sint (mnp_MaxTokens params) =
           (case req_Config req of
              None \<Rightarrow> 8192
            | Some config \<Rightarrow>
                if 0 < sint (cfg_MaxOutputTokens config) then sint (cfg_MaxOutputTokens config)
                else 8192)"
proof (cases "req_Config req")
  case None
  with assms buildParams_Inr_None [OF assms None] show ?thesis
    by (simp add: defaultMaxTokens_def)
next
  case (Some config)
  from buildParams_Inr_Some [OF assms Some] obtain p0 p1 where
    p0: "mnp_MaxTokens p0 = defaultMaxTokens"
    and sys: "setSystem config p0 = Inr p1"
    and tools: "setTools config (setSampling config (setMaxTokens config p1)) = Inr params"
    by force
  from tools have "mnp_MaxTokens params = mnp_MaxTokens (setMaxTokens config p1)"
    by (simp add: setTools_fields setSampling_fields)
  moreover from sys p0 have "mnp_MaxTokens p1 = defaultMaxTokens"
    by (simp add: setSystem_fields)
  moreover have "sint (scast (cfg_MaxOutputTokens config) :: 64 word) =
                 sint (cfg_MaxOutputTokens config)"
    by (simp add: sint_up_scast is_up)
  ultimately show ?thesis
    using Some by (simp add: setMaxTokens_def defaultMaxTokens_def)
qed

theorem buildParams_MaxTokens_witness:
  "(\<exists>params. buildParams ''claude-sonnet-4-5'' exRequest = Inr params \<and>
             sint (mnp_MaxTokens params) = 1024) \<and>
   (\<exists>params. buildParams ''claude-sonnet-4-5''
                \<lparr> req_Contents = [Some exUserText], req_Config = None \<rparr> = Inr params \<and>
             sint (mnp_MaxTokens params) = 8192) \<and>
   (\<exists>params. buildParams ''claude-sonnet-4-5''
                \<lparr> req_Contents = [Some exUserText],
                  req_Config = Some (exConfig \<lparr> cfg_MaxOutputTokens := - 1 \<rparr>) \<rparr> = Inr params \<and>
             sint (mnp_MaxTokens params) = 8192)"
proof (intro conjI)
  have "\<exists>params. buildParams ''claude-sonnet-4-5'' exRequest = Inr params"
    by (simp add: buildParams_def exRequest_def exConfig_def exSystem_def exUserText_def exTextPart_def
        contentsToMessages_def partsToBlocks_def partBlock_def setSystem_def
        systemFromContent_def setTools_def extractTools_def)
  then obtain params where run: "buildParams ''claude-sonnet-4-5'' exRequest = Inr params" ..
  from buildParams_MaxTokens [OF run] have "sint (mnp_MaxTokens params) = 1024"
    by (simp add: exRequest_def exConfig_def)
  with run show "\<exists>params. buildParams ''claude-sonnet-4-5'' exRequest = Inr params \<and>
             sint (mnp_MaxTokens params) = 1024" by blast
next
  let ?req = "\<lparr> req_Contents = [Some exUserText], req_Config = None \<rparr>"
  have "\<exists>params. buildParams ''claude-sonnet-4-5'' ?req = Inr params"
    by (simp add: buildParams_def exUserText_def exTextPart_def contentsToMessages_def partsToBlocks_def
        partBlock_def)
  then obtain params where run: "buildParams ''claude-sonnet-4-5'' ?req = Inr params" ..
  from buildParams_MaxTokens [OF run] have "sint (mnp_MaxTokens params) = 8192" by simp
  with run show "\<exists>params. buildParams ''claude-sonnet-4-5'' ?req = Inr params \<and>
             sint (mnp_MaxTokens params) = 8192" by blast
next
  let ?req = "\<lparr> req_Contents = [Some exUserText],
                  req_Config = Some (exConfig \<lparr> cfg_MaxOutputTokens := - 1 \<rparr>) \<rparr>"
  have "\<exists>params. buildParams ''claude-sonnet-4-5'' ?req = Inr params"
    by (simp add: buildParams_def exConfig_def exSystem_def exUserText_def exTextPart_def
        contentsToMessages_def partsToBlocks_def partBlock_def setSystem_def
        systemFromContent_def setTools_def extractTools_def)
  then obtain params where run: "buildParams ''claude-sonnet-4-5'' ?req = Inr params" ..
  from buildParams_MaxTokens [OF run] have "sint (mnp_MaxTokens params) = 8192"
    by (simp add: exConfig_def)
  with run show "\<exists>params. buildParams ''claude-sonnet-4-5'' ?req = Inr params \<and>
             sint (mnp_MaxTokens params) = 8192" by blast
qed

text \<open>
  C9: with a system instruction in the config, the system prompt of the parameters is one
  text block whose text is the newline-join of the non-empty texts of the instruction's
  parts, in order: the first text, then every further one behind a newline. When no part
  has a non-empty text the system prompt stays unset (the nil slice).
\<close>

theorem buildParams_System:
  assumes "buildParams name req = Inr params"
    and "req_Config req = Some config"
    and "cfg_SystemInstruction config = Some c"
  shows "mnp_System params =
           (let texts = filter (\<lambda>t. t \<noteq> []) (map p_Text (List.map_filter (\<lambda>p. p) (c_Parts c)))
            in if texts = [] then []
               else [\<lparr> tb_Type = ''text'',
                       tb_Text = hd texts @ concat (map ((#) CHR 0x0A) (tl texts)) \<rparr>])"
proof -
  define sys where "sys =
    (let texts = filter (\<lambda>t. t \<noteq> []) (map p_Text (List.map_filter (\<lambda>p. p) (c_Parts c)))
     in if texts = [] then []
        else [\<lparr> tb_Type = ''text'',
                tb_Text = hd texts @ concat (map ((#) CHR 0x0A) (tl texts)) \<rparr>])"
  from buildParams_Inr_Some [OF assms(1,2)] obtain p0 p1 where
    p0: "mnp_System p0 = []"
    and sys: "setSystem config p0 = Inr p1"
    and tools: "setTools config (setSampling config (setMaxTokens config p1)) = Inr params"
    by force
  from tools have "mnp_System params = mnp_System p1"
    by (simp add: setTools_fields setSampling_fields setMaxTokens_fields)
  moreover have "mnp_System p1 = sys"
  proof (cases "None \<in> set (c_Parts c)")
    case True
    with sys assms(3) show ?thesis by (simp add: setSystem_def systemFromContent_eq)
  next
    case False
    then have "systemFromContent c = Inr sys"
      unfolding sys_def by (simp only: systemFromContent_eq if_False)
    with sys assms(3) p0 show ?thesis
      by (cases "sys = []") (auto simp: setSystem_def)
  qed
  ultimately show ?thesis unfolding sys_def by simp
qed

theorem buildParams_System_witness:
  "\<exists>params. buildParams ''claude-sonnet-4-5'' exRequest = Inr params \<and>
            mnp_System params =
              [\<lparr> tb_Type = ''text'',
                 tb_Text = ''You are a surf analyst.'' @ [CHR 0x0A] @ ''Rate conditions.'' \<rparr>]"
proof -
  have "\<exists>params. buildParams ''claude-sonnet-4-5'' exRequest = Inr params"
    by (simp add: buildParams_def exRequest_def exConfig_def exSystem_def exUserText_def exTextPart_def
        contentsToMessages_def partsToBlocks_def partBlock_def setSystem_def
        systemFromContent_def setTools_def extractTools_def)
  then obtain params where run: "buildParams ''claude-sonnet-4-5'' exRequest = Inr params" ..
  have "req_Config exRequest = Some exConfig" and "cfg_SystemInstruction exConfig = Some exSystem"
    by (simp_all add: exRequest_def exConfig_def)
  from buildParams_System [OF run this] have "mnp_System params =
              [\<lparr> tb_Type = ''text'',
                 tb_Text = ''You are a surf analyst.'' @ [CHR 0x0A] @ ''Rate conditions.'' \<rparr>]"
    by (simp add: exSystem_def map_filter_simps)
  with run show ?thesis by blast
qed

section \<open>The two tool extractors\<close>

lemma declInputSchema_Parameters:
  "fd_Parameters fd \<noteq> None \<Longrightarrow> declInputSchema_convert fd = declInputSchema fd"
  by (auto simp: declInputSchema_convert_def declInputSchema_def Let_def split: option.splits)

lemma declarationsLoop_cong:
  "(\<And>fd. Some fd \<in> set fds \<Longrightarrow> f fd = g fd) \<Longrightarrow>
     declarationsLoop f result fds = declarationsLoop g result fds"
proof (induction fds arbitrary: result)
  case Nil
  show ?case by simp
next
  case (Cons x fds)
  show ?case
  proof (cases x)
    case None
    then show ?thesis by simp
  next
    case (Some fd)
    with Cons.prems have "f fd = g fd" by simp
    moreover have "declarationsLoop f r fds = declarationsLoop g r fds" for r
      using Cons.prems by (intro Cons.IH) auto
    ultimately show ?thesis using Some by simp
  qed
qed

lemma toolsLoop_cong:
  "(\<And>t fd. Some t \<in> set tools \<Longrightarrow> Some fd \<in> set (t_FunctionDeclarations t) \<Longrightarrow> f fd = g fd) \<Longrightarrow>
     toolsLoop f result tools = toolsLoop g result tools"
proof (induction tools arbitrary: result)
  case Nil
  show ?case by simp
next
  case (Cons x tools)
  show ?case
  proof (cases x)
    case None
    then show ?thesis by simp
  next
    case (Some t)
    with Cons.prems have "declarationsLoop f result (t_FunctionDeclarations t) =
                          declarationsLoop g result (t_FunctionDeclarations t)"
      by (intro declarationsLoop_cong) auto
    moreover have "toolsLoop f r tools = toolsLoop g r tools" for r
      using Cons.prems by (intro Cons.IH) auto
    ultimately show ?thesis using Some by (simp split: sum.splits)
  qed
qed

text \<open>
  C4: on tools whose function declarations all have a structured \<open>Parameters\<close> schema,
  the extractor of convert.go and the extractor method of the adapter give the same
  result: the same tool definitions (names, descriptions, input schemas) in the same
  order, and the same panic where a tool or declaration pointer is nil.
\<close>

theorem extractTools_versions_agree:
  assumes "\<forall>t fd. Some t \<in> set tools \<longrightarrow> Some fd \<in> set (t_FunctionDeclarations t) \<longrightarrow>
             fd_Parameters fd \<noteq> None"
  shows "extractTools_convert tools = extractTools tools"
  unfolding extractTools_convert_def extractTools_def
  using assms by (intro toolsLoop_cong declInputSchema_Parameters) blast

lemma ex_lower: "ToLower ''OBJECT'' = ''object''" "ToLower ''STRING'' = ''string''"
  by code_simp+

theorem extractTools_versions_agree_witness:
  "extractTools_convert [Some exTool] = extractTools [Some exTool] \<and>
   extractTools [Some exTool] =
     Inr [\<lparr> tp_Name = ''get_spots_of_interest'',
            tp_Description = ''Returns spots of interest.'',
            tp_InputSchema =
              \<lparr> is_Type = ''object'',
                is_Properties =
                  AMap [(''name'', AMap [(''type'', AString ''string''),
                                         (''description'', AString ''Spot name'')])],
                is_Required = [''name''] \<rparr> \<rparr>]"
proof -
  have hyp: "\<forall>t fd. Some t \<in> set [Some exTool] \<longrightarrow> Some fd \<in> set (t_FunctionDeclarations t) \<longrightarrow>
             fd_Parameters fd \<noteq> None"
    by (simp add: exTool_def exDeclaration_def)
  have run: "extractTools [Some exTool] =
     Inr [\<lparr> tp_Name = ''get_spots_of_interest'',
            tp_Description = ''Returns spots of interest.'',
            tp_InputSchema =
              \<lparr> is_Type = ''object'',
                is_Properties =
                  AMap [(''name'', AMap [(''type'', AString ''string''),
                                         (''description'', AString ''Spot name'')])],
                is_Required = [''name''] \<rparr> \<rparr>]"
    by (simp add: extractTools_def exTool_def exDeclaration_def declInputSchema_def
        index_def asStrings_def ex_lower)
  from extractTools_versions_agree [OF hyp] run show ?thesis by simp
qed

text \<open>Without a structured schema the two versions differ.\<close>

lemma extractTools_versions_differ:
  "extractTools_convert
     [Some \<lparr> t_FunctionDeclarations =
        [Some \<lparr> fd_Name = ''f'', fd_Description = [], fd_Parameters = None,
                fd_ParametersJsonSchema =
                  AMap [(''type'', AString ''object''),
                        (''properties'', AMap [(''q'', AMap [(''type'', AString ''string'')])]),
                        (''required'', AStrings [''q''])] \<rparr>] \<rparr>]
   \<noteq> extractTools
     [Some \<lparr> t_FunctionDeclarations =
        [Some \<lparr> fd_Name = ''f'', fd_Description = [], fd_Parameters = None,
                fd_ParametersJsonSchema =
                  AMap [(''type'', AString ''object''),
                        (''properties'', AMap [(''q'', AMap [(''type'', AString ''string'')])]),
                        (''required'', AStrings [''q''])] \<rparr>] \<rparr>]"
  by (simp add: extractTools_convert_def extractTools_def declInputSchema_convert_def
      declInputSchema_def index_def indexMap_def asStrings_def asSlice_def asString_def
      Marshal_def UnmarshalMap_def)

section \<open>The blocking call\<close>

text \<open>
  C3: without streaming, and once the parameters of the request are built,
  \<open>GenerateContent\<close> returns an iterator that yields exactly one pair, whatever the
  consumer answers. When the blocking provider call fails the pair is no response and an
  error that wraps the provider's error and prints it behind the prefix \<open>claude: \<close>;
  when the call succeeds the pair is the mapped response and no error.
\<close>

theorem GenerateContent_blocking:
  assumes "buildParams (m_name m) req = Inr params"
  shows "\<exists>run. GenerateContent accumulate m req False = Inr run \<and>
           (\<forall>yield.
              (case m_MessagesNew m params of
                 Inl err \<Rightarrow>
                   \<exists>e. run yield = [(None, Some e)] \<and> Error e = ''claude: '' @ Error err \<and>
                       Unwrap e = Some err
               | Inr msg \<Rightarrow> run yield = [(Some (messageToLLMResponse msg), None)]))"
  using assms by (simp add: GenerateContent_def split: sum.splits)

lemma exRequest_params: "\<exists>params. buildParams ''claude-sonnet-4-5'' exRequest = Inr params"
  by (simp add: buildParams_def exRequest_def exConfig_def exSystem_def exUserText_def exTextPart_def
      contentsToMessages_def partsToBlocks_def partBlock_def setSystem_def
      systemFromContent_def setTools_def extractTools_def)

lemma exReply_response:
  "messageToLLMResponse exReply =
     \<lparr> resp_Content =
         Some \<lparr> c_Role = ''model'',
                c_Parts = [Some \<lparr> p_Text = ''Paris'', p_FunctionCall = None,
                                   p_FunctionResponse = None \<rparr>] \<rparr>,
       resp_FinishReason = ''STOP'',
       resp_UsageMetadata =
         Some \<lparr> um_PromptTokenCount = 14, um_CandidatesTokenCount = 4,
                um_TotalTokenCount = 18 \<rparr>,
       resp_Partial = False, resp_TurnComplete = False \<rparr>"
  by (simp add: messageToLLMResponse_def exReply_def exTextBlock_def blockPart_def
      stopToFinish_def StopReasonEndTurn_def FinishReasonStop_def usageToMetadata_def)

theorem GenerateContent_blocking_witness:
  "(\<exists>run. GenerateContent accumulateText exModel exRequest False = Inr run \<and>
          run (\<lambda>ys. True) =
            [(Some \<lparr> resp_Content =
                       Some \<lparr> c_Role = ''model'',
                              c_Parts = [Some \<lparr> p_Text = ''Paris'', p_FunctionCall = None,
                                                 p_FunctionResponse = None \<rparr>] \<rparr>,
                     resp_FinishReason = ''STOP'',
                     resp_UsageMetadata =
                       Some \<lparr> um_PromptTokenCount = 14, um_CandidatesTokenCount = 4,
                              um_TotalTokenCount = 18 \<rparr>,
                     resp_Partial = False, resp_TurnComplete = False \<rparr>, None)]) \<and>
   (\<exists>run e. GenerateContent accumulateText exFailing exRequest False = Inr run \<and>
          run (\<lambda>ys. True) = [(None, Some e)] \<and>
          Error e = ''claude: 401 Unauthorized'')"
proof (intro conjI)
  from exRequest_params obtain params where
    "buildParams (m_name exModel) exRequest = Inr params"
    by (auto simp: exModel_def)
  from GenerateContent_blocking [OF this, of accumulateText]
  show "\<exists>run. GenerateContent accumulateText exModel exRequest False = Inr run \<and>
          run (\<lambda>ys. True) =
            [(Some \<lparr> resp_Content =
                       Some \<lparr> c_Role = ''model'',
                              c_Parts = [Some \<lparr> p_Text = ''Paris'', p_FunctionCall = None,
                                                 p_FunctionResponse = None \<rparr>] \<rparr>,
                     resp_FinishReason = ''STOP'',
                     resp_UsageMetadata =
                       Some \<lparr> um_PromptTokenCount = 14, um_CandidatesTokenCount = 4,
                              um_TotalTokenCount = 18 \<rparr>,
                     resp_Partial = False, resp_TurnComplete = False \<rparr>, None)]"
    by (auto simp: exModel_def exReply_response)
next
  from exRequest_params obtain params where
    "buildParams (m_name exFailing) exRequest = Inr params"
    by (auto simp: exFailing_def)
  from GenerateContent_blocking [OF this, of accumulateText]
  have "\<exists>run. GenerateContent accumulateText exFailing exRequest False = Inr run \<and>
          (\<forall>yield. \<exists>e. run yield = [(None, Some e)] \<and>
                Error e = ''claude: '' @ Error (ErrorNew ''401 Unauthorized'') \<and>
                Unwrap e = Some (ErrorNew ''401 Unauthorized''))"
    by (simp add: exFailing_def)
  then obtain run where run: "GenerateContent accumulateText exFailing exRequest False = Inr run"
    and all: "\<forall>yield. \<exists>e. run yield = [(None, Some e)] \<and>
                Error e = ''claude: 401 Unauthorized''"
    by fastforce
  from all obtain e where "run (\<lambda>ys. True) = [(None, Some e)]"
    and "Error e = ''claude: 401 Unauthorized''"
    by blast
  with run show "\<exists>run e. GenerateContent accumulateText exFailing exRequest False = Inr run \<and>
          run (\<lambda>ys. True) = [(None, Some e)] \<and>
          Error e = ''claude: 401 Unauthorized''"
    by blast
qed

section \<open>Function calls\<close>









text \<open>The other two conditions of the round trip are needed as well.\<close>

lemma functionCall_round_trip_loses_response:
  "partsToBlocks
     [Some (exCallPart \<lparr> p_FunctionResponse :=
              Some \<lparr> fr_ID = ''toolu_01A'', fr_Name = ''get_spots'', fr_Response = None \<rparr> \<rparr>)] =
     Inr [NewToolUseBlock ''toolu_01A'' (Some [(''name'', AString ''all'')]) ''get_spots''] \<and>
   messagePartsLoop []
     [wireBlock (NewToolUseBlock ''toolu_01A'' (Some [(''name'', AString ''all'')]) ''get_spots'')] =
     [Some exCallPart]"
  by (simp add: partsToBlocks_def partBlock_def exCallPart_def blockPart_def Marshal_def
      anyOfMap_def UnmarshalMap_def)

lemma functionCall_round_trip_changes_strings:
  "partsToBlocks
     [Some \<lparr> p_Text = [],
             p_FunctionCall =
               Some \<lparr> fc_ID = ''toolu_01B'', fc_Args = Some [(''tags'', AStrings [''a''])],
                      fc_Name = ''tag'' \<rparr>,
             p_FunctionResponse = None \<rparr>] =
     Inr [NewToolUseBlock ''toolu_01B'' (Some [(''tags'', AStrings [''a''])]) ''tag''] \<and>
   messagePartsLoop []
     [wireBlock (NewToolUseBlock ''toolu_01B'' (Some [(''tags'', AStrings [''a''])]) ''tag'')] =
     [Some \<lparr> p_Text = [],
             p_FunctionCall =
               Some \<lparr> fc_ID = ''toolu_01B'', fc_Args = Some [(''tags'', ASlice [AString ''a''])],
                      fc_Name = ''tag'' \<rparr>,
             p_FunctionResponse = None \<rparr>]"
  by (simp add: partsToBlocks_def partBlock_def blockPart_def Marshal_def anyOfMap_def
      UnmarshalMap_def)

section \<open>Streaming\<close>














text \<open>
  The text of the last response is the accumulator's doing: with an accumulator that
  ignores its events the deltas are yielded and the last response is empty.
\<close>

lemma generateStream_text_of_accumulator:
  "generateStream (\<lambda>event msg. Inr msg) ([exTextDelta ''Hello''], None) (\<lambda>ys. True) =
     [(Some (partialResponse ''Hello''), None),
      (Some ((messageToLLMResponse zeroMessage) \<lparr> resp_TurnComplete := True \<rparr>), None)] \<and>
   responseText ((messageToLLMResponse zeroMessage) \<lparr> resp_TurnComplete := True \<rparr>) = []"
  by (simp add: generateStream_def exEvent_def exTextDelta_def textDelta_def responseText_def
      messageToLLMResponse_def zeroMessage_def)

end
